theory Spec2Isabelle
  imports Complex_Main "HOL-Library.Sublist"
begin

section \<open>Data model\<close>

text \<open>
  A shallow embedding of \<^verbatim>\<open>csv_processor.py\<close>: the filter operators, the aggregation
  functions, the two methods \<^verbatim>\<open>filter_data\<close> and \<^verbatim>\<open>aggregate_data\<close> of
  \<^verbatim>\<open>CSVProcessor\<close>, and the parsers \<^verbatim>\<open>parse_filter\<close> and \<^verbatim>\<open>parse_aggregation\<close>.

  Modelling decisions:
  \<^item> A Python \<^verbatim>\<open>str\<close> is a \<open>string\<close>; a \<open>char\<close> stands for a code point below 256.
  \<^item> A cell of a row is what \<^verbatim>\<open>csv.DictReader\<close> stores: a \<^verbatim>\<open>str\<close>, or \<^verbatim>\<open>None\<close> for a
    field missing from a short line.
  \<^item> A row (a \<^verbatim>\<open>dict\<close>) is a map from column names to cells; a dataset is a list of rows.
  \<^item> The \<^verbatim>\<open>float\<close> that a cell converts to is held as the \<open>real\<close> it denotes; comparing
    two such floats is exact. The builtin conversion \<^verbatim>\<open>float(s)\<close> of a string is not code
    of the program; it is a parameter \<open>pf\<close> of every function that calls it, \<open>None\<close>
    standing for \<^verbatim>\<open>ValueError\<close>.
  \<^item> The result of an aggregation is a \<open>pyfloat\<close>: a finite float, an infinity or NaN.
    Float arithmetic rounds and overflows, so the builtins \<^verbatim>\<open>sum\<close> and \<^verbatim>\<open>/\<close> are not the
    sum and the quotient of real numbers; they are the parameters \<open>fsum\<close> and \<open>fdiv\<close> of
    the functions that call them.
  \<^item> Every \<^verbatim>\<open>raise\<close> is a value \<open>Inl e\<close>. All errors the program raises itself are
    \<^verbatim>\<open>ValueError\<close>s told apart by their message; the message is a constructor carrying
    the interpolated name.
\<close>

datatype cell = Str string | PyNone

type_synonym row = "string \<rightharpoonup> cell"

type_synonym float_parser = "string \<Rightarrow> real option"

datatype message =
    FilterFormat                 \<comment> \<open>filter must have the shape column=operator=value\<close>
  | AggregationFormat            \<comment> \<open>aggregation must have the shape column=function\<close>
  | UnsupportedOperator string   \<comment> \<open>unsupported operator: \<open>{operator}\<close>\<close>
  | UnsupportedFunction string   \<comment> \<open>unsupported aggregation function: \<open>{function}\<close>\<close>
  | ColumnNotFound string        \<comment> \<open>column \<open>'{column}'\<close> not found in the data\<close>
  | NoNumericValues string       \<comment> \<open>column \<open>'{column}'\<close> has no numeric values to aggregate\<close>

datatype error = ValueError message | IndexError | KeyError string

section \<open>String builtins\<close>

text \<open>\<^verbatim>\<open>str.lower()\<close> on code points below 256: the letters A to Z and the capital letters of
  the Latin-1 block (0xC0 to 0xDE, without the multiplication sign 0xD7) move up by 32.\<close>

definition lower_char :: "char \<Rightarrow> char" where
  "lower_char c =
     (let n = of_char c :: nat
      in if 65 \<le> n \<and> n \<le> 90 then char_of (n + 32)
         else if 192 \<le> n \<and> n \<le> 222 \<and> n \<noteq> 215 then char_of (n + 32)
         else c)"

definition str_lower :: "string \<Rightarrow> string" where
  "str_lower s = map lower_char s"

text \<open>\<^verbatim>\<open>str.isspace()\<close> of one code point below 256, and \<^verbatim>\<open>str.strip()\<close>.\<close>

definition is_space :: "char \<Rightarrow> bool" where
  "is_space c =
     (let n = of_char c :: nat
      in (9 \<le> n \<and> n \<le> 13) \<or> (28 \<le> n \<and> n \<le> 32) \<or> n = 133 \<or> n = 160)"

definition str_strip :: "string \<Rightarrow> string" where
  "str_strip s = rev (dropWhile is_space (rev (dropWhile is_space s)))"

text \<open>\<^verbatim>\<open>s.split(sep)\<close> for a separator of one character: the pieces between the
  occurrences of \<open>sep\<close>, empty pieces included.\<close>

fun str_split :: "char \<Rightarrow> string \<Rightarrow> string list" where
  "str_split sep [] = [[]]"
| "str_split sep (c # cs) =
     (if c = sep then [] # str_split sep cs
      else (case str_split sep cs of
              [] \<Rightarrow> [[c]]
            | p # ps \<Rightarrow> (c # p) # ps))"

text \<open>\<^verbatim>\<open>str(value)\<close> and \<^verbatim>\<open>float(value)\<close> of a cell; \<^verbatim>\<open>float(None)\<close> raises
  \<^verbatim>\<open>TypeError\<close>, which every caller catches together with \<^verbatim>\<open>ValueError\<close>.\<close>

definition py_str :: "cell \<Rightarrow> string" where
  "py_str v = (case v of Str s \<Rightarrow> s | PyNone \<Rightarrow> ''None'')"

definition py_float :: "float_parser \<Rightarrow> cell \<Rightarrow> real option" where
  "py_float pf v = (case v of Str s \<Rightarrow> pf s | PyNone \<Rightarrow> None)"

section \<open>Filter operators\<close>

datatype FilterOperator = EqualsOperator | GreaterOperator | LessOperator

definition EqualsOperator_apply :: "cell \<Rightarrow> cell \<Rightarrow> bool" where
  "EqualsOperator_apply value target = (str_lower (py_str value) = str_lower (py_str target))"

definition GreaterOperator_apply :: "float_parser \<Rightarrow> cell \<Rightarrow> cell \<Rightarrow> bool" where
  "GreaterOperator_apply pf value target =
     (case py_float pf value of
        None \<Rightarrow> False
      | Some a \<Rightarrow> (case py_float pf target of
                    None \<Rightarrow> False
                  | Some b \<Rightarrow> a > b))"

definition LessOperator_apply :: "float_parser \<Rightarrow> cell \<Rightarrow> cell \<Rightarrow> bool" where
  "LessOperator_apply pf value target =
     (case py_float pf value of
        None \<Rightarrow> False
      | Some a \<Rightarrow> (case py_float pf target of
                    None \<Rightarrow> False
                  | Some b \<Rightarrow> a < b))"

fun op_apply :: "float_parser \<Rightarrow> FilterOperator \<Rightarrow> cell \<Rightarrow> cell \<Rightarrow> bool" where
  "op_apply pf EqualsOperator value target = EqualsOperator_apply value target"
| "op_apply pf GreaterOperator value target = GreaterOperator_apply pf value target"
| "op_apply pf LessOperator value target = LessOperator_apply pf value target"

section \<open>Aggregation functions\<close>

datatype AggregationFunction = AverageFunction | MinFunction | MaxFunction

text \<open>A Python \<^verbatim>\<open>float\<close> as an aggregation returns it: a finite double (the real number it
  denotes), plus or minus infinity, or NaN.\<close>

datatype pyfloat = Finite real | PosInf | NegInf | NaN

text \<open>\<^verbatim>\<open>sum(values)\<close> on a list of floats and \<^verbatim>\<open>x / n\<close> for a float \<open>x\<close> and an int \<open>n\<close>
  are arithmetic of the interpreter on doubles: each result is rounded, a sum beyond the
  largest double is an infinity, and the summation algorithm is the interpreter's (plain
  left-to-right addition, or compensated summation in later versions). They are the
  parameters \<open>fsum\<close> and \<open>fdiv\<close>.\<close>

type_synonym float_sum = "real list \<Rightarrow> pyfloat"

type_synonym float_div = "pyfloat \<Rightarrow> nat \<Rightarrow> pyfloat"

definition AverageFunction_calculate :: "float_sum \<Rightarrow> float_div \<Rightarrow> real list \<Rightarrow> pyfloat" where
  "AverageFunction_calculate fsum fdiv values =
     (if values = [] then Finite 0 else fdiv (fsum values) (length values))"

text \<open>\<^verbatim>\<open>min(values)\<close> and \<^verbatim>\<open>max(values)\<close> keep the first item and replace it by a later
  one that compares strictly below (above) it; they only compare, so the result is one of
  the items. Both are only called on a non-empty list.\<close>

definition MinFunction_calculate :: "real list \<Rightarrow> pyfloat" where
  "MinFunction_calculate values =
     (case values of
        [] \<Rightarrow> Finite 0
      | v # rest \<Rightarrow> Finite (foldl (\<lambda>m x. if x < m then x else m) v rest))"

definition MaxFunction_calculate :: "real list \<Rightarrow> pyfloat" where
  "MaxFunction_calculate values =
     (case values of
        [] \<Rightarrow> Finite 0
      | v # rest \<Rightarrow> Finite (foldl (\<lambda>m x. if x > m then x else m) v rest))"

fun calculate ::
  "float_sum \<Rightarrow> float_div \<Rightarrow> AggregationFunction \<Rightarrow> real list \<Rightarrow> pyfloat" where
  "calculate fsum fdiv AverageFunction values = AverageFunction_calculate fsum fdiv values"
| "calculate fsum fdiv MinFunction values = MinFunction_calculate values"
| "calculate fsum fdiv MaxFunction values = MaxFunction_calculate values"

section \<open>CSVProcessor\<close>

text \<open>The two tables that \<^verbatim>\<open>__init__\<close> stores in the processor.\<close>

definition operators :: "string \<rightharpoonup> FilterOperator" where
  "operators = map_of
     [(''eq'', EqualsOperator), (''gt'', GreaterOperator), (''lt'', LessOperator)]"

definition aggregation_functions :: "string \<rightharpoonup> AggregationFunction" where
  "aggregation_functions = map_of
     [(''avg'', AverageFunction), (''min'', MinFunction), (''max'', MaxFunction)]"

text \<open>The loop of \<^verbatim>\<open>filter_data\<close>: \<open>filtered_data\<close> is the accumulator; \<^verbatim>\<open>row[column]\<close>
  raises \<^verbatim>\<open>KeyError\<close> on a row without the column.\<close>

fun filter_loop ::
  "float_parser \<Rightarrow> FilterOperator \<Rightarrow> string \<Rightarrow> string \<Rightarrow> row list \<Rightarrow> row list
     \<Rightarrow> error + row list" where
  "filter_loop pf filter_op column value [] filtered_data = Inr filtered_data"
| "filter_loop pf filter_op column value (row # rows) filtered_data =
     (case row column of
        None \<Rightarrow> Inl (KeyError column)
      | Some c \<Rightarrow>
          filter_loop pf filter_op column value rows
            (if op_apply pf filter_op c (Str value)
             then filtered_data @ [row] else filtered_data))"

definition filter_data ::
  "float_parser \<Rightarrow> row list \<Rightarrow> string \<Rightarrow> string \<Rightarrow> string \<Rightarrow> error + row list" where
  "filter_data pf data column operator value =
     (case data of
        [] \<Rightarrow> Inl IndexError
      | row0 # _ \<Rightarrow>
          if row0 column = None then Inl (ValueError (ColumnNotFound column))
          else (case operators operator of
                  None \<Rightarrow> Inl (ValueError (UnsupportedOperator operator))
                | Some filter_op \<Rightarrow> filter_loop pf filter_op column value data []))"

text \<open>The loop of \<^verbatim>\<open>aggregate_data\<close>: a cell that does not convert is skipped.\<close>

fun numeric_loop ::
  "float_parser \<Rightarrow> string \<Rightarrow> row list \<Rightarrow> real list \<Rightarrow> error + real list" where
  "numeric_loop pf column [] numeric_values = Inr numeric_values"
| "numeric_loop pf column (row # rows) numeric_values =
     (case row column of
        None \<Rightarrow> Inl (KeyError column)
      | Some c \<Rightarrow>
          (case py_float pf c of
             None \<Rightarrow> numeric_loop pf column rows numeric_values
           | Some x \<Rightarrow> numeric_loop pf column rows (numeric_values @ [x])))"

definition aggregate_data ::
  "float_parser \<Rightarrow> float_sum \<Rightarrow> float_div \<Rightarrow> row list \<Rightarrow> string \<Rightarrow> string
     \<Rightarrow> error + pyfloat" where
  "aggregate_data pf fsum fdiv data column function =
     (case data of
        [] \<Rightarrow> Inr (Finite 0)
      | row0 # _ \<Rightarrow>
          if row0 column = None then Inl (ValueError (ColumnNotFound column))
          else (case aggregation_functions function of
                  None \<Rightarrow> Inl (ValueError (UnsupportedFunction function))
                | Some agg_func \<Rightarrow>
                    (case numeric_loop pf column data [] of
                       Inl e \<Rightarrow> Inl e
                     | Inr numeric_values \<Rightarrow>
                         if numeric_values = []
                         then Inl (ValueError (NoNumericValues column))
                         else Inr (calculate fsum fdiv agg_func numeric_values))))"

section \<open>Parsers\<close>

definition operator_map :: "string \<rightharpoonup> string" where
  "operator_map = map_of
     [(''=='', ''eq''), (''eq'', ''eq''),
      (''>'', ''gt''), (''gt'', ''gt''), (''>='', ''gt''),
      (''<'', ''lt''), (''lt'', ''lt''), (''<='', ''lt'')]"

text \<open>The result of \<^verbatim>\<open>parse_filter\<close> is a triple; each component is a string or
  \<^verbatim>\<open>None\<close>.\<close>

definition parse_filter ::
  "string \<Rightarrow> error + (string option \<times> string option \<times> string option)" where
  "parse_filter filter_str =
     (if filter_str = [] then Inr (None, None, None)
      else (case str_split CHR ''='' filter_str of
              [column, operator, value] \<Rightarrow>
                (case operator_map operator of
                   None \<Rightarrow> Inl (ValueError (UnsupportedOperator operator))
                 | Some canonical \<Rightarrow>
                     Inr (Some (str_strip column), Some canonical, Some (str_strip value)))
            | _ \<Rightarrow> Inl (ValueError FilterFormat)))"

definition parse_aggregation :: "string \<Rightarrow> error + (string option \<times> string option)" where
  "parse_aggregation agg_str =
     (if agg_str = [] then Inr (None, None)
      else (case str_split CHR ''='' agg_str of
              [column, function] \<Rightarrow>
                Inr (Some (str_strip column), Some (str_lower (str_strip function)))
            | _ \<Rightarrow> Inl (ValueError AggregationFormat)))"

section \<open>Facts about the builtins\<close>

lemma str_split_not_Nil [simp]: "str_split sep s \<noteq> []"
  by (induction s) (auto split: list.splits)

lemma str_split_no_sep: "p \<in> set (str_split sep s) \<Longrightarrow> sep \<notin> set p"
  by (induction s arbitrary: p) (auto split: if_splits list.splits)

lemma str_split_append:
  "str_split sep (a @ sep # b) = str_split sep a @ str_split sep b"
  by (induction a) (auto split: list.splits)

lemma str_split_without_sep: "sep \<notin> set s \<Longrightarrow> str_split sep s = [s]"
  by (induction s) auto

lemma length_str_split: "length (str_split sep s) = Suc (count_list s sep)"
  by (induction s) (auto split: list.splits)



lemma operators_dom: "operators k \<noteq> None \<longleftrightarrow> k \<in> {''eq'', ''gt'', ''lt''}"
  by (simp add: operators_def)

lemma aggregation_functions_dom:
  "aggregation_functions k \<noteq> None \<longleftrightarrow> k \<in> {''avg'', ''min'', ''max''}"
  by (simp add: aggregation_functions_def)

lemma operator_map_Some:
  "operator_map m = Some k \<Longrightarrow>
     m \<in> {''=='', ''eq'', ''>'', ''gt'', ''>='', ''<'', ''lt'', ''<=''} \<and> k \<in> {''eq'', ''gt'', ''lt''}"
  by (auto simp: operator_map_def split: if_splits)

lemma filter_loop_rows:
  "\<forall>r\<in>set rows. r column \<noteq> None \<Longrightarrow>
   filter_loop pf filter_op column value rows acc =
     Inr (acc @ filter (\<lambda>row. case row column of None \<Rightarrow> False
                                | Some c \<Rightarrow> op_apply pf filter_op c (Str value)) rows)"
  by (induction rows arbitrary: acc) auto

lemma filter_loop_KeyError:
  "\<exists>r\<in>set rows. r column = None \<Longrightarrow>
   filter_loop pf filter_op column value rows acc = Inl (KeyError column)"
  by (induction rows arbitrary: acc) (auto split: option.splits)

lemma numeric_loop_rows:
  "\<forall>r\<in>set rows. r column \<noteq> None \<Longrightarrow>
   numeric_loop pf column rows acc =
     Inr (acc @ List.map_filter (\<lambda>row. case row column of None \<Rightarrow> None
                                         | Some c \<Rightarrow> py_float pf c) rows)"
  by (induction rows arbitrary: acc) (auto split: option.splits)

lemma numeric_loop_KeyError:
  "\<exists>r\<in>set rows. r column = None \<Longrightarrow>
   numeric_loop pf column rows acc = Inl (KeyError column)"
  by (induction rows arbitrary: acc) (auto split: option.splits)

section \<open>Aggregation of an empty dataset\<close>

text \<open>
  Claim C2. For the empty dataset, every column name and every function token,
  \<^verbatim>\<open>aggregate_data\<close> returns 0.0 and raises nothing: the test for the empty dataset
  comes before the test of the column and the test of the function.
\<close>

theorem aggregate_data_empty:
  "aggregate_data pf fsum fdiv [] column function = Inr (Finite 0)"
  by (simp add: aggregate_data_def)

section \<open>The operator alias table\<close>

text \<open>
  Claim C3. In the alias table of \<^verbatim>\<open>parse_filter\<close>, \<^verbatim>\<open>>=\<close> has the canonical operator
  of \<^verbatim>\<open>>\<close>, \<^verbatim>\<open>==\<close> that of \<^verbatim>\<open>eq\<close> and \<^verbatim>\<open><=\<close> that of \<^verbatim>\<open><\<close>. The canonical
  operators \<^verbatim>\<open>gt\<close> and \<^verbatim>\<open>lt\<close> are the strict comparisons: neither holds between a cell
  and itself, so \<^verbatim>\<open>>=\<close> and \<^verbatim>\<open><=\<close> are not or-equal comparisons.
\<close>

theorem operator_map_aliases:
  "operator_map ''>='' = operator_map ''>'' \<and>
   operator_map ''=='' = operator_map ''eq'' \<and>
   operator_map ''<='' = operator_map ''<'' \<and>
   operator_map ''>='' = Some ''gt'' \<and> operators ''gt'' = Some GreaterOperator \<and>
   operator_map ''<='' = Some ''lt'' \<and> operators ''lt'' = Some LessOperator \<and>
   operator_map ''=='' = Some ''eq'' \<and> operators ''eq'' = Some EqualsOperator \<and>
   op_apply pf GreaterOperator v v = False \<and>
   op_apply pf LessOperator v v = False"
  by (simp add: operator_map_def operators_def GreaterOperator_apply_def
      LessOperator_apply_def split: option.split)

section \<open>The comparison operators\<close>

text \<open>
  Claim C7. For operand strings \<open>v\<close> and \<open>t\<close>: when the conversion to a float fails on
  \<open>v\<close> or on \<open>t\<close>, \<^verbatim>\<open>GreaterOperator.apply\<close> and \<^verbatim>\<open>LessOperator.apply\<close> both return
  \<^verbatim>\<open>False\<close> (a value, not an exception); when both convert, to \<open>a\<close> and \<open>b\<close>, the
  first returns \<open>a > b\<close> and the second \<open>a < b\<close>.
\<close>

theorem comparison_operators_apply:
  "(pf v = None \<or> pf t = None \<longrightarrow>
      GreaterOperator_apply pf (Str v) (Str t) = False \<and>
      LessOperator_apply pf (Str v) (Str t) = False) \<and>
   (\<forall>a b. pf v = Some a \<and> pf t = Some b \<longrightarrow>
      GreaterOperator_apply pf (Str v) (Str t) = (a > b) \<and>
      LessOperator_apply pf (Str v) (Str t) = (a < b))"
  by (auto simp: GreaterOperator_apply_def LessOperator_apply_def py_float_def
      split: option.splits)

theorem comparison_operators_apply_witness:
  "GreaterOperator_apply (map_of [(''10'', 10), (''5'', 5)]) (Str ''10'') (Str ''5'') \<and>
   \<not> LessOperator_apply (map_of [(''10'', 10), (''5'', 5)]) (Str ''10'') (Str ''5'') \<and>
   \<not> GreaterOperator_apply (map_of [(''10'', 10), (''5'', 5)]) (Str ''not_a_number'') (Str ''5'') \<and>
   \<not> LessOperator_apply (map_of [(''10'', 10), (''5'', 5)]) (Str ''not_a_number'') (Str ''5'')"
  using comparison_operators_apply [of "map_of [(''10'', 10), (''5'', 5)]" "''10''" "''5''"]
    comparison_operators_apply [of "map_of [(''10'', 10), (''5'', 5)]" "''not_a_number''" "''5''"]
  by simp

section \<open>The equality operator\<close>

text \<open>
  Claim C8. For strings \<open>v\<close> and \<open>t\<close>, \<^verbatim>\<open>EqualsOperator.apply(v, t)\<close> is the equality of
  the lowercase forms of \<open>v\<close> and \<open>t\<close>. Nothing is trimmed and nothing is converted to a
  number (a leading blank and the spelling \<^verbatim>\<open>1.0\<close> of \<^verbatim>\<open>1\<close> make operands differ), and
  the operator is symmetric in its two arguments.
\<close>

theorem equals_operator_apply:
  "EqualsOperator_apply (Str v) (Str t) = (str_lower v = str_lower t) \<and>
   EqualsOperator_apply x y = EqualsOperator_apply y x \<and>
   EqualsOperator_apply (Str ''Apple'') (Str ''aPPLE'') \<and>
   \<not> EqualsOperator_apply (Str '' apple'') (Str ''apple'') \<and>
   \<not> EqualsOperator_apply (Str ''1.0'') (Str ''1'')"
proof -
  have general: "EqualsOperator_apply (Str v) (Str t) = (str_lower v = str_lower t)"
    by (simp add: EqualsOperator_apply_def py_str_def)
  have symmetric: "EqualsOperator_apply x y = EqualsOperator_apply y x"
    by (auto simp: EqualsOperator_apply_def)
  have folded: "EqualsOperator_apply (Str ''Apple'') (Str ''aPPLE'')"
    by code_simp
  have untrimmed: "\<not> EqualsOperator_apply (Str '' apple'') (Str ''apple'')"
    by code_simp
  have uncoerced: "\<not> EqualsOperator_apply (Str ''1.0'') (Str ''1'')"
    by code_simp
  from general symmetric folded untrimmed uncoerced show ?thesis
    by blast
qed

section \<open>The aggregation functions\<close>




section \<open>The filter parser\<close>

lemma parse_filter_three:
  "s \<noteq> [] \<Longrightarrow> str_split CHR ''='' s = [c, m, v] \<Longrightarrow>
   parse_filter s =
     (case operator_map m of
        None \<Rightarrow> Inl (ValueError (UnsupportedOperator m))
      | Some k \<Rightarrow> Inr (Some (str_strip c), Some k, Some (str_strip v)))"
  by (simp add: parse_filter_def)

lemma parse_filter_not_three:
  "s \<noteq> [] \<Longrightarrow> length (str_split CHR ''='' s) \<noteq> 3 \<Longrightarrow>
   parse_filter s = Inl (ValueError FilterFormat)"
  by (auto simp: parse_filter_def split: list.splits)

lemma length_three: "length xs = 3 \<Longrightarrow> \<exists>a b c. xs = [a, b, c]"
  by (cases xs; simp) (metis (no_types) Suc_length_conv length_0_conv numeral_2_eq_2)

text \<open>
  Claim C4. For every input string \<open>s\<close> of \<^verbatim>\<open>parse_filter\<close>: the empty string gives the
  triple of \<^verbatim>\<open>None\<close>s and no error; a non-empty string that splits on \<^verbatim>\<open>=\<close> into a
  number of segments other than 3 gives the format error; three segments whose middle
  one is not a key of the alias table give the unsupported-operator error naming that
  segment; otherwise the result is the triple of the stripped first segment, the
  canonical operator (one of \<^verbatim>\<open>eq\<close>, \<^verbatim>\<open>gt\<close>, \<^verbatim>\<open>lt\<close>, a key of the operator table) and the
  stripped last segment. A returned triple is never partly filled.
\<close>

theorem parse_filter_cases:
  "(s = [] \<longrightarrow> parse_filter s = Inr (None, None, None)) \<and>
   (s \<noteq> [] \<and> length (str_split CHR ''='' s) \<noteq> 3 \<longrightarrow>
      parse_filter s = Inl (ValueError FilterFormat)) \<and>
   (\<forall>c m v. s \<noteq> [] \<and> str_split CHR ''='' s = [c, m, v] \<and> operator_map m = None \<longrightarrow>
      parse_filter s = Inl (ValueError (UnsupportedOperator m))) \<and>
   (\<forall>c m v k. s \<noteq> [] \<and> str_split CHR ''='' s = [c, m, v] \<and> operator_map m = Some k \<longrightarrow>
      parse_filter s = Inr (Some (str_strip c), Some k, Some (str_strip v)) \<and>
      k \<in> {''eq'', ''gt'', ''lt''} \<and> operators k \<noteq> None) \<and>
   (\<forall>x y z. parse_filter s = Inr (x, y, z) \<longrightarrow>
      (x = None \<and> y = None \<and> z = None) \<or>
      (x \<noteq> None \<and> z \<noteq> None \<and> (\<exists>k. y = Some k \<and> operators k \<noteq> None)))"
proof -
  have empty: "s = [] \<longrightarrow> parse_filter s = Inr (None, None, None)"
    by (simp add: parse_filter_def)
  have other: "s \<noteq> [] \<and> length (str_split CHR ''='' s) \<noteq> 3 \<longrightarrow>
      parse_filter s = Inl (ValueError FilterFormat)"
    by (simp add: parse_filter_not_three)
  have unknown: "\<forall>c m v. s \<noteq> [] \<and> str_split CHR ''='' s = [c, m, v] \<and> operator_map m = None \<longrightarrow>
      parse_filter s = Inl (ValueError (UnsupportedOperator m))"
    by (simp add: parse_filter_three)
  have known: "\<forall>c m v k. s \<noteq> [] \<and> str_split CHR ''='' s = [c, m, v] \<and> operator_map m = Some k \<longrightarrow>
      parse_filter s = Inr (Some (str_strip c), Some k, Some (str_strip v)) \<and>
      k \<in> {''eq'', ''gt'', ''lt''} \<and> operators k \<noteq> None"
    using operator_map_Some operators_dom by (simp add: parse_filter_three) blast
  have whole: "(x = None \<and> y = None \<and> z = None) \<or>
      (x \<noteq> None \<and> z \<noteq> None \<and> (\<exists>k. y = Some k \<and> operators k \<noteq> None))"
    if r: "parse_filter s = Inr (x, y, z)" for x y z
  proof (cases "s = []")
    case True
    with r show ?thesis by (simp add: parse_filter_def)
  next
    case False
    with r other have "length (str_split CHR ''='' s) = 3" by auto
    then obtain c m v where sp: "str_split CHR ''='' s = [c, m, v]"
      using length_three by blast
    show ?thesis
    proof (cases "operator_map m")
      case None
      with r False sp unknown show ?thesis by auto
    next
      case (Some k)
      with False sp known
      have "parse_filter s = Inr (Some (str_strip c), Some k, Some (str_strip v))"
        and "operators k \<noteq> None"
        by blast+
      with r show ?thesis by auto
    qed
  qed
  from empty other unknown known whole show ?thesis by blast
qed

theorem parse_filter_cases_witness:
  "parse_filter '''' = Inr (None, None, None) \<and>
   parse_filter ''invalid_format'' = Inl (ValueError FilterFormat) \<and>
   parse_filter ''price=invalid=500'' = Inl (ValueError (UnsupportedOperator ''invalid'')) \<and>
   parse_filter ''price=gt= 500'' = Inr (Some ''price'', Some ''gt'', Some ''500'')"
proof -
  have s1: "str_split CHR ''='' ''invalid_format'' = [''invalid_format'']"
    by code_simp
  have s2: "str_split CHR ''='' ''price=invalid=500'' = [''price'', ''invalid'', ''500'']"
    by code_simp
  have s3: "str_split CHR ''='' ''price=gt= 500'' = [''price'', ''gt'', '' 500'']"
    by code_simp
  have m2: "operator_map ''invalid'' = None" by code_simp
  have m3: "operator_map ''gt'' = Some ''gt''" by code_simp
  have t: "str_strip ''price'' = ''price''" "str_strip '' 500'' = ''500''" by code_simp+
  show ?thesis
    using parse_filter_cases [of "''''"] parse_filter_cases [of "''invalid_format''"]
      parse_filter_cases [of "''price=invalid=500''"] parse_filter_cases [of "''price=gt= 500''"]
      s1 s2 s3 m2 m3 t
    by simp
qed

text \<open>
  Claim C10. When \<^verbatim>\<open>parse_filter\<close> succeeds on a string, the middle one of the three
  segments of the split contains no \<^verbatim>\<open>=\<close>, so it is none of the keys \<^verbatim>\<open>==\<close>, \<^verbatim>\<open>>=\<close>
  and \<^verbatim>\<open><=\<close> of the alias table. The string \<^verbatim>\<open>price=>=500\<close> splits into three segments
  with the middle one \<^verbatim>\<open>>\<close>. A string that contains \<^verbatim>\<open>==\<close> has an empty segment, and
  parsing it fails (with the format error, or with the empty operator unsupported).
\<close>

theorem parse_filter_middle_segment:
  "(\<forall>c k v. parse_filter s = Inr (Some c, Some k, Some v) \<longrightarrow>
      (\<exists>a m b. str_split CHR ''='' s = [a, m, b] \<and> CHR ''='' \<notin> set m \<and>
         m \<notin> {''=='', ''>='', ''<=''} \<and> operator_map m = Some k)) \<and>
   str_split CHR ''='' ''price=>=500'' = [''price'', ''>'', ''500''] \<and>
   parse_filter ''price=>=500'' = Inr (Some ''price'', Some ''gt'', Some ''500'') \<and>
   [] \<in> set (str_split CHR ''='' (a @ ''=='' @ b)) \<and>
   parse_filter (a @ ''=='' @ b) \<in>
     {Inl (ValueError FilterFormat), Inl (ValueError (UnsupportedOperator []))}"
proof -
  have middle: "\<exists>a m b. str_split CHR ''='' s = [a, m, b] \<and> CHR ''='' \<notin> set m \<and>
         m \<notin> {''=='', ''>='', ''<=''} \<and> operator_map m = Some k"
    if r: "parse_filter s = Inr (Some c, Some k, Some v)" for c k v
  proof -
    from r have ne: "s \<noteq> []" by (auto simp: parse_filter_def)
    with r have "length (str_split CHR ''='' s) = 3"
      using parse_filter_not_three by fastforce
    then obtain a m b where sp: "str_split CHR ''='' s = [a, m, b]"
      using length_three by blast
    then have "m \<in> set (str_split CHR ''='' s)" by simp
    then have no: "CHR ''='' \<notin> set m" by (rule str_split_no_sep)
    then have "m \<notin> {''=='', ''>='', ''<=''}" by auto
    moreover from r ne sp have "operator_map m = Some k"
      by (auto simp: parse_filter_three split: option.splits)
    ultimately show ?thesis using sp no by blast
  qed
  have sp: "str_split CHR ''='' ''price=>=500'' = [''price'', ''>'', ''500'']"
    by code_simp
  have pf: "parse_filter ''price=>=500'' = Inr (Some ''price'', Some ''gt'', Some ''500'')"
    by code_simp
  have double: "str_split CHR ''='' (a @ ''=='' @ b) =
      str_split CHR ''='' a @ [] # str_split CHR ''='' b"
    using str_split_append [of "CHR ''=''" a "CHR ''='' # b"] by simp
  then have hole: "[] \<in> set (str_split CHR ''='' (a @ ''=='' @ b))" by simp
  have fails: "parse_filter (a @ ''=='' @ b) \<in>
     {Inl (ValueError FilterFormat), Inl (ValueError (UnsupportedOperator []))}"
  proof (cases "length (str_split CHR ''='' (a @ ''=='' @ b)) = 3")
    case False
    then show ?thesis by (simp add: parse_filter_not_three)
  next
    case True
    with double obtain x y where "str_split CHR ''='' a = [x]" "str_split CHR ''='' b = [y]"
      by (cases "str_split CHR ''='' a"; cases "str_split CHR ''='' b")
        (auto simp: length_Suc_conv)
    with double have "str_split CHR ''='' (a @ ''=='' @ b) = [x, [], y]" by simp
    moreover have "operator_map [] = None" by (simp add: operator_map_def)
    ultimately show ?thesis by (simp add: parse_filter_three)
  qed
  from middle sp pf hole fails show ?thesis by blast
qed

theorem parse_filter_middle_segment_witness:
  "\<exists>a m b. str_split CHR ''='' ''price=<=500'' = [a, m, b] \<and> CHR ''='' \<notin> set m \<and>
     m \<notin> {''=='', ''>='', ''<=''} \<and> operator_map m = Some ''lt''"
proof -
  have "parse_filter ''price=<=500'' = Inr (Some ''price'', Some ''lt'', Some ''500'')"
    by code_simp
  with parse_filter_middle_segment [of "''price=<=500''"] show ?thesis
    by blast
qed

section \<open>Filtering\<close>

lemma filter_data_unknown_column:
  "row column = None \<Longrightarrow>
   filter_data pf (row # rows) column operator value = Inl (ValueError (ColumnNotFound column))"
  by (simp add: filter_data_def)

text \<open>
  Claim C1. On a non-empty dataset whose first row lacks the column, \<^verbatim>\<open>filter_data\<close>
  raises the column-not-found error (lemma \<open>filter_data_unknown_column\<close>). On the empty
  dataset the claim expects the test of the column to be skipped and no error; the code
  evaluates \<^verbatim>\<open>data[0]\<close> first, which raises \<^verbatim>\<open>IndexError\<close> for every column, operator
  and value.
\<close>

theorem filter_data_empty:
  "filter_data pf [] column operator value = Inl IndexError"
  by (simp add: filter_data_def)

text \<open>
  Claim C6. On a dataset (non-empty, all rows with the key set of the first row) whose
  first row contains the filter column, and for an operator of the operator table,
  \<^verbatim>\<open>filter_data\<close> returns exactly the rows on which the operator holds between the row's
  cell and the target, in their original order: the result is a subsequence of the
  input. The result may be empty and is still a result, not an error.
\<close>

theorem filter_data_subsequence:
  assumes "data \<noteq> []"
    and "\<forall>r\<in>set data. dom r = dom (hd data)"
    and "column \<in> dom (hd data)"
    and "operators operator = Some filter_op"
  shows "\<exists>result. filter_data pf data column operator value = Inr result \<and>
           result = filter (\<lambda>row. case row column of
                                     None \<Rightarrow> False
                                   | Some c \<Rightarrow> op_apply pf filter_op c (Str value)) data \<and>
           subseq result data"
proof -
  from assms(2,3) have all: "\<forall>r\<in>set data. r column \<noteq> None"
    by (auto simp: dom_def)
  from assms(1) obtain row0 rows where d: "data = row0 # rows"
    by (cases data) auto
  with assms(3) have "row0 column \<noteq> None" by auto
  with d assms(4) have "filter_data pf data column operator value =
      filter_loop pf filter_op column value data []"
    by (simp add: filter_data_def)
  with all show ?thesis
    by (simp add: filter_loop_rows)
qed

theorem filter_data_subsequence_witness:
  "filter_data (map_of [(''999'', 999), (''1199'', 1199), (''199'', 199), (''500'', 500)])
     [[''brand'' \<mapsto> Str ''apple'', ''price'' \<mapsto> Str ''999''],
      [''brand'' \<mapsto> Str ''xiaomi'', ''price'' \<mapsto> Str ''199''],
      [''brand'' \<mapsto> Str ''samsung'', ''price'' \<mapsto> Str ''1199'']]
     ''price'' ''gt'' ''500''
   = Inr [[''brand'' \<mapsto> Str ''apple'', ''price'' \<mapsto> Str ''999''],
          [''brand'' \<mapsto> Str ''samsung'', ''price'' \<mapsto> Str ''1199'']] \<and>
   filter_data (map_of [(''999'', 999), (''1199'', 1199), (''199'', 199), (''500'', 500)])
     [[''brand'' \<mapsto> Str ''apple'', ''price'' \<mapsto> Str ''999''],
      [''brand'' \<mapsto> Str ''xiaomi'', ''price'' \<mapsto> Str ''199''],
      [''brand'' \<mapsto> Str ''samsung'', ''price'' \<mapsto> Str ''1199'']]
     ''price'' ''lt'' ''100''
   = Inr []"
proof -
  have gt: "operators ''gt'' = Some GreaterOperator" and lt: "operators ''lt'' = Some LessOperator"
    by (simp_all add: operators_def)
  show ?thesis
    using filter_data_subsequence [OF _ _ _ gt,
        of "[[''brand'' \<mapsto> Str ''apple'', ''price'' \<mapsto> Str ''999''],
             [''brand'' \<mapsto> Str ''xiaomi'', ''price'' \<mapsto> Str ''199''],
             [''brand'' \<mapsto> Str ''samsung'', ''price'' \<mapsto> Str ''1199'']]"
           "''price''"
           "map_of [(''999'', 999), (''1199'', 1199), (''199'', 199), (''500'', 500)]"
           "''500''"]
      filter_data_subsequence [OF _ _ _ lt,
        of "[[''brand'' \<mapsto> Str ''apple'', ''price'' \<mapsto> Str ''999''],
             [''brand'' \<mapsto> Str ''xiaomi'', ''price'' \<mapsto> Str ''199''],
             [''brand'' \<mapsto> Str ''samsung'', ''price'' \<mapsto> Str ''1199'']]"
           "''price''"
           "map_of [(''999'', 999), (''1199'', 1199), (''199'', 199), (''500'', 500)]"
           "''100''"]
    by (simp add: GreaterOperator_apply_def LessOperator_apply_def py_float_def)
qed

section \<open>Aggregation of a non-empty dataset\<close>

lemma aggregate_data_nonempty:
  "data \<noteq> [] \<Longrightarrow>
   aggregate_data pf fsum fdiv data column function =
     (if hd data column = None then Inl (ValueError (ColumnNotFound column))
      else (case aggregation_functions function of
              None \<Rightarrow> Inl (ValueError (UnsupportedFunction function))
            | Some agg_func \<Rightarrow>
                (case numeric_loop pf column data [] of
                   Inl e \<Rightarrow> Inl e
                 | Inr numeric_values \<Rightarrow>
                     if numeric_values = []
                     then Inl (ValueError (NoNumericValues column))
                     else Inr (calculate fsum fdiv agg_func numeric_values))))"
  by (cases data) (simp_all add: aggregate_data_def split: option.split)

lemma parse_aggregation_two:
  "CHR ''='' \<notin> set c \<Longrightarrow> CHR ''='' \<notin> set f \<Longrightarrow>
   parse_aggregation (c @ ''='' @ f) = Inr (Some (str_strip c), Some (str_lower (str_strip f)))"
  using str_split_append [of "CHR ''=''" c f]
  by (simp add: parse_aggregation_def str_split_without_sep)

text \<open>
  Claim C5. On a non-empty dataset (all rows with the key set of the first row)
  \<^verbatim>\<open>aggregate_data\<close> raises the column-not-found error exactly when the column is not a
  key of the first row; otherwise the unsupported-function error exactly when the
  function token is none of \<^verbatim>\<open>avg\<close>, \<^verbatim>\<open>min\<close>, \<^verbatim>\<open>max\<close>; otherwise, with the cells that
  do not convert to a float skipped, the no-numeric-values error naming the column
  exactly when no value is left, and the function's result on the values left when there
  are some. \<^verbatim>\<open>parse_aggregation\<close> lowercases the stripped token and accepts every token,
  a key of the function table or not.
\<close>

theorem aggregate_data_error_order:
  "(data \<noteq> [] \<and> (\<forall>r\<in>set data. dom r = dom (hd data)) \<longrightarrow>
      (aggregate_data pf fsum fdiv data column function = Inl (ValueError (ColumnNotFound column))
         \<longleftrightarrow> column \<notin> dom (hd data)) \<and>
      (aggregate_data pf fsum fdiv data column function = Inl (ValueError (UnsupportedFunction function))
         \<longleftrightarrow> column \<in> dom (hd data) \<and> function \<notin> {''avg'', ''min'', ''max''}) \<and>
      (aggregate_data pf fsum fdiv data column function = Inl (ValueError (NoNumericValues column))
         \<longleftrightarrow> column \<in> dom (hd data) \<and> function \<in> {''avg'', ''min'', ''max''} \<and>
             List.map_filter (\<lambda>row. case row column of None \<Rightarrow> None
                                      | Some c \<Rightarrow> py_float pf c) data = []) \<and>
      (\<forall>agg_func. column \<in> dom (hd data) \<and> aggregation_functions function = Some agg_func \<and>
             List.map_filter (\<lambda>row. case row column of None \<Rightarrow> None
                                      | Some c \<Rightarrow> py_float pf c) data \<noteq> [] \<longrightarrow>
         aggregate_data pf fsum fdiv data column function =
           Inr (calculate fsum fdiv agg_func
                  (List.map_filter (\<lambda>row. case row column of None \<Rightarrow> None
                                           | Some c \<Rightarrow> py_float pf c) data)))) \<and>
   (CHR ''='' \<notin> set c \<and> CHR ''='' \<notin> set f \<longrightarrow>
      parse_aggregation (c @ ''='' @ f) =
        Inr (Some (str_strip c), Some (str_lower (str_strip f))))"
proof -
  let ?nums = "List.map_filter (\<lambda>row. case row column of None \<Rightarrow> None
                                      | Some c \<Rightarrow> py_float pf c) data"
  let ?res = "aggregate_data pf fsum fdiv data column function"
  have known: "(function \<in> {''avg'', ''min'', ''max''}) = (aggregation_functions function \<noteq> None)"
    by (rule aggregation_functions_dom [symmetric])
  have engine:
    "data \<noteq> [] \<and> (\<forall>r\<in>set data. dom r = dom (hd data)) \<longrightarrow>
     (?res = Inl (ValueError (ColumnNotFound column)) \<longleftrightarrow> column \<notin> dom (hd data)) \<and>
     (?res = Inl (ValueError (UnsupportedFunction function))
         \<longleftrightarrow> column \<in> dom (hd data) \<and> function \<notin> {''avg'', ''min'', ''max''}) \<and>
     (?res = Inl (ValueError (NoNumericValues column))
         \<longleftrightarrow> column \<in> dom (hd data) \<and> function \<in> {''avg'', ''min'', ''max''} \<and> ?nums = []) \<and>
     (\<forall>agg_func. column \<in> dom (hd data) \<and> aggregation_functions function = Some agg_func \<and>
          ?nums \<noteq> [] \<longrightarrow> ?res = Inr (calculate fsum fdiv agg_func ?nums))"
  proof (intro impI, elim conjE)
    assume ne: "data \<noteq> []" and uni: "\<forall>r\<in>set data. dom r = dom (hd data)"
    show "(?res = Inl (ValueError (ColumnNotFound column)) \<longleftrightarrow> column \<notin> dom (hd data)) \<and>
     (?res = Inl (ValueError (UnsupportedFunction function))
         \<longleftrightarrow> column \<in> dom (hd data) \<and> function \<notin> {''avg'', ''min'', ''max''}) \<and>
     (?res = Inl (ValueError (NoNumericValues column))
         \<longleftrightarrow> column \<in> dom (hd data) \<and> function \<in> {''avg'', ''min'', ''max''} \<and> ?nums = []) \<and>
     (\<forall>agg_func. column \<in> dom (hd data) \<and> aggregation_functions function = Some agg_func \<and>
          ?nums \<noteq> [] \<longrightarrow> ?res = Inr (calculate fsum fdiv agg_func ?nums))"
  proof (cases "column \<in> dom (hd data)")
    case False
    then have "hd data column = None" by (simp add: domIff)
    with ne have "?res = Inl (ValueError (ColumnNotFound column))"
      by (simp add: aggregate_data_nonempty)
    with False show ?thesis by simp
  next
    case True
    then have first: "hd data column \<noteq> None" by (simp add: domIff)
    from uni True have "\<forall>r\<in>set data. column \<in> dom r" by blast
    then have "\<forall>r\<in>set data. r column \<noteq> None" by (simp add: domIff)
    then have loop: "numeric_loop pf column data [] = Inr ?nums"
      by (simp add: numeric_loop_rows)
    show ?thesis
    proof (cases "aggregation_functions function")
      case None
      with ne first have "?res = Inl (ValueError (UnsupportedFunction function))"
        by (simp add: aggregate_data_nonempty)
      with True None show ?thesis unfolding known by simp
    next
      case (Some agg_func)
      with ne first loop
      have "?res = (if ?nums = [] then Inl (ValueError (NoNumericValues column))
                    else Inr (calculate fsum fdiv agg_func ?nums))"
        by (simp add: aggregate_data_nonempty)
      with True Some show ?thesis unfolding known by simp
    qed
  qed
  qed
  have parser: "CHR ''='' \<notin> set c \<and> CHR ''='' \<notin> set f \<longrightarrow>
      parse_aggregation (c @ ''='' @ f) =
        Inr (Some (str_strip c), Some (str_lower (str_strip f)))"
    using parse_aggregation_two [of c f] by (intro impI) (elim conjE)
  from engine parser show ?thesis by (rule conjI)
qed

theorem aggregate_data_error_order_witness:
  "aggregate_data (map_of [(''999'', 999), (''1199'', 1199)]) (\<lambda>_. NaN) (\<lambda>_ _. NaN)
     [[''name'' \<mapsto> Str ''iphone'', ''price'' \<mapsto> Str ''999''],
      [''name'' \<mapsto> Str ''galaxy'', ''price'' \<mapsto> Str ''1199'']] ''brand'' ''bogus''
     = Inl (ValueError (ColumnNotFound ''brand'')) \<and>
   aggregate_data (map_of [(''999'', 999), (''1199'', 1199)]) (\<lambda>_. NaN) (\<lambda>_ _. NaN)
     [[''name'' \<mapsto> Str ''iphone'', ''price'' \<mapsto> Str ''999''],
      [''name'' \<mapsto> Str ''galaxy'', ''price'' \<mapsto> Str ''1199'']] ''name'' ''bogus''
     = Inl (ValueError (UnsupportedFunction ''bogus'')) \<and>
   aggregate_data (map_of [(''999'', 999), (''1199'', 1199)]) (\<lambda>_. NaN) (\<lambda>_ _. NaN)
     [[''name'' \<mapsto> Str ''iphone'', ''price'' \<mapsto> Str ''999''],
      [''name'' \<mapsto> Str ''galaxy'', ''price'' \<mapsto> Str ''1199'']] ''name'' ''avg''
     = Inl (ValueError (NoNumericValues ''name'')) \<and>
   aggregate_data (map_of [(''999'', 999), (''1199'', 1199)]) (\<lambda>_. NaN) (\<lambda>_ _. NaN)
     [[''name'' \<mapsto> Str ''iphone'', ''price'' \<mapsto> Str ''999''],
      [''name'' \<mapsto> Str ''galaxy'', ''price'' \<mapsto> Str ''1199'']] ''price'' ''max''
     = Inr (Finite 1199) \<and>
   parse_aggregation ''price=BOGUS'' = Inr (Some ''price'', Some ''bogus'')"
proof -
  let ?pf = "map_of [(''999'', 999 :: real), (''1199'', 1199)]"
  let ?fsum = "\<lambda>_ :: real list. NaN"
  let ?fdiv = "\<lambda>(_ :: pyfloat) (_ :: nat). NaN"
  let ?data = "[[''name'' \<mapsto> Str ''iphone'', ''price'' \<mapsto> Str ''999''],
                [''name'' \<mapsto> Str ''galaxy'', ''price'' \<mapsto> Str ''1199'']]"
  have t: "str_strip ''price'' = ''price''" "str_lower (str_strip ''BOGUS'') = ''bogus''"
    by code_simp+
  have f: "aggregation_functions ''max'' = Some MaxFunction"
    by (simp add: aggregation_functions_def)
  have a: "aggregate_data ?pf ?fsum ?fdiv ?data ''brand'' ''bogus'' = Inl (ValueError (ColumnNotFound ''brand''))"
    using aggregate_data_error_order [of ?data ?pf ?fsum ?fdiv "''brand''" "''bogus''" "''price''" "''BOGUS''"]
    by simp
  have b: "aggregate_data ?pf ?fsum ?fdiv ?data ''name'' ''bogus'' = Inl (ValueError (UnsupportedFunction ''bogus''))"
    using aggregate_data_error_order [of ?data ?pf ?fsum ?fdiv "''name''" "''bogus''" "''price''" "''BOGUS''"]
    by simp
  have c: "aggregate_data ?pf ?fsum ?fdiv ?data ''name'' ''avg'' = Inl (ValueError (NoNumericValues ''name''))"
    using aggregate_data_error_order [of ?data ?pf ?fsum ?fdiv "''name''" "''avg''" "''price''" "''BOGUS''"]
    by (simp add: py_float_def List.map_filter_simps)
  have d: "aggregate_data ?pf ?fsum ?fdiv ?data ''price'' ''max'' = Inr (Finite 1199)"
    using aggregate_data_error_order [of ?data ?pf ?fsum ?fdiv "''price''" "''max''" "''price''" "''BOGUS''"] f
    by (simp add: py_float_def List.map_filter_simps MaxFunction_calculate_def)
  have e: "parse_aggregation ''price=BOGUS'' = Inr (Some ''price'', Some ''bogus'')"
    using aggregate_data_error_order [of ?data ?pf ?fsum ?fdiv "''price''" "''max''" "''price''" "''BOGUS''"] t
    by simp
  from a b c d e show ?thesis by (intro conjI)
qed

end
